theory Spec2Isabelle
  imports Complex_Main "HOL-Library.Multiset"
begin

section \<open>The hybrid recommender engine (recommender/recommender_engine.py)\<close>

text \<open>
  A shallow embedding of class \<open>HybridRecommender\<close>. Conventions:
  \<^item> a pandas DataFrame is the list of its rows; the frames read by \<open>_load_data\<close> carry a
    RangeIndex, so the index label of a row is its position, and a filtered frame is a list
    of (label, row) pairs;
  \<^item> Python floats are real numbers (rounding is not modelled), Python ints are \<open>int\<close>;
  \<^item> an exception is a value \<open>Inl err\<close>; \<open>print\<close> calls are left out;
  \<^item> calls into scikit-learn and Surprise are opaque functions, fields of a record \<open>lib\<close>;
  \<^item> the generator behind \<open>DataFrame.sample\<close> is an explicit argument \<open>choice\<close>.
\<close>

subsection \<open>Data\<close>

datatype error = UnpicklingError | EOFError | KeyError | IndexError | TypeError | ValueError
  | PredictionImpossible

text \<open>Rows of \<open>recommender_movie\<close>; \<open>m_content\<close> is the column added by a fresh content build.\<close>

record movie =
  m_id :: int
  m_title :: string
  m_genre :: "string option"
  m_overview :: "string option"
  m_tmdb_id :: "int option"
  m_content :: "string option"

text \<open>Rows of \<open>recommender_rating\<close>.\<close>

record rating =
  r_id :: int
  r_user_id :: int
  r_movie_id :: int
  r_rating :: real
  r_timestamp :: int

text \<open>Rows of \<open>recommender_watchlist\<close>.\<close>

record watchlist =
  w_id :: int
  w_user_id :: int
  w_movie_id :: int
  w_added_at :: int

text \<open>A two-dimensional numpy array: its shape and its entries.\<close>

record ndarray =
  shape0 :: nat
  shape1 :: nat
  item :: "nat \<Rightarrow> nat \<Rightarrow> real"

text \<open>The fitted \<open>TfidfVectorizer\<close>, kept as its vocabulary.\<close>

type_synonym vectorizer = "string list"

text \<open>The fitted \<open>SVD\<close> object, kept as its method \<open>predict(uid, iid).est\<close>, which may raise.\<close>

type_synonym svd = "int \<Rightarrow> int \<Rightarrow> error + real"

text \<open>The dictionary pickled into \<open>content_model.pkl\<close>.\<close>

record cache_data =
  cd_vectorizer :: vectorizer
  cd_matrix :: ndarray
  cd_similarity :: ndarray

text \<open>
  A file of the cache directory: \<open>Corrupt err\<close> is a file on which \<open>pickle.load\<close> (or the
  reading of the three keys) raises \<open>err\<close>; \<open>Pickle x\<close> unpickles to \<open>x\<close>. A file that does
  not exist is \<open>None\<close> in \<open>cache_dir\<close>.
\<close>

datatype 'a pkl_file = Corrupt error | Pickle 'a

record cache_dir =
  content_model_pkl :: "cache_data pkl_file option"
  svd_model_pkl :: "svd pkl_file option"

text \<open>The three tables read by \<open>_load_data\<close>.\<close>

record db =
  recommender_movie :: "movie list"
  recommender_rating :: "rating list"
  recommender_watchlist :: "watchlist list"

text \<open>
  The library calls of the two build methods: \<open>TfidfVectorizer(...).fit_transform\<close> on the
  documents, \<open>cosine_similarity\<close>, and the training of the \<open>SVD\<close> model on the ratings
  (\<open>Reader\<close>, \<open>Dataset.load_from_df\<close>, \<open>train_test_split\<close>, \<open>fit\<close>). Fitting and training
  may raise.
\<close>

record lib =
  fit_transform :: "string list \<Rightarrow> error + vectorizer \<times> ndarray"
  cosine_similarity :: "ndarray \<Rightarrow> ndarray \<Rightarrow> ndarray"
  svd_fit :: "rating list \<Rightarrow> error + svd"

text \<open>
  The attributes of a \<open>HybridRecommender\<close>. Those that \<open>__init__\<close> sets to \<open>None\<close> before
  the build methods run are options; \<open>watchlist_df\<close> is one because \<open>_is_in_watchlist\<close>
  tests for it.
\<close>

record engine =
  movies_df :: "movie list"
  ratings_df :: "rating list"
  watchlist_df :: "watchlist list option"
  tfidf_vectorizer :: "vectorizer option"
  tfidf_matrix :: "ndarray option"
  content_similarity :: "ndarray option"
  svd_model :: "svd option"

text \<open>One dictionary appended to \<open>recommendations\<close> by the scoring loop.\<close>

record recommendation =
  rec_movie_id :: int
  content_score :: real
  collab_score :: real
  hybrid_score :: real
  in_watchlist :: bool

subsection \<open>Library behaviour used by the engine\<close>

text \<open>\<open>xs[:n]\<close> and \<open>Series.head(n)\<close>: a negative \<open>n\<close> drops the last \<open>-n\<close> elements.\<close>

definition py_take :: "int \<Rightarrow> 'a list \<Rightarrow> 'a list" where
  "py_take n xs = (if 0 \<le> n then take (nat n) xs else take (length xs - nat (- n)) xs)"

text \<open>\<open>pickle.load\<close> on an existing file.\<close>

definition pickle_load :: "'a pkl_file \<Rightarrow> error + 'a" where
  "pickle_load f = (case f of Corrupt err \<Rightarrow> Inl err | Pickle x \<Rightarrow> Inr x)"

text \<open>\<open>M[i, j]\<close> for non-negative indices: outside the shape numpy raises \<open>IndexError\<close>.\<close>

definition ndarray_get :: "ndarray \<Rightarrow> nat \<Rightarrow> nat \<Rightarrow> error + real" where
  "ndarray_get M i j = (if i < shape0 M \<and> j < shape1 M then Inr (item M i j) else Inl IndexError)"

text \<open>\<open>np.mean\<close> of a non-empty list.\<close>

definition np_mean :: "real list \<Rightarrow> real" where
  "np_mean xs = sum_list xs / real (length xs)"

text \<open>\<open>Series.fillna('')\<close> on one cell.\<close>

definition fillna :: "string option \<Rightarrow> string" where
  "fillna s = (case s of None \<Rightarrow> [] | Some t \<Rightarrow> t)"

text \<open>
  \<open>DataFrame.sample(n=n)\<close>: without replacement, so it raises \<open>ValueError\<close> for a negative
  \<open>n\<close> and for an \<open>n\<close> above the number of rows. \<open>choice len k\<close> is the generator's draw of
  \<open>k\<close> row positions out of \<open>len\<close>.
\<close>

definition sample :: "(nat \<Rightarrow> nat \<Rightarrow> nat list) \<Rightarrow> int \<Rightarrow> 'a list \<Rightarrow> error + 'a list" where
  "sample choice n xs =
     (if n < 0 \<or> int (length xs) < n then Inl ValueError
      else Inr (map (\<lambda>i. xs ! i) (choice (length xs) (nat n))))"

text \<open>What numpy guarantees of a draw without replacement: \<open>k\<close> distinct positions below \<open>len\<close>.\<close>

definition valid_choice :: "(nat \<Rightarrow> nat \<Rightarrow> nat list) \<Rightarrow> nat \<Rightarrow> nat \<Rightarrow> bool" where
  "valid_choice choice len k \<longleftrightarrow>
     length (choice len k) = k \<and> distinct (choice len k) \<and> (\<forall>i \<in> set (choice len k). i < len)"

text \<open>
  \<open>groupby('movie_id')\<close>: one group per distinct key, keys ascending. A Series is the list of
  its (index, value) pairs.
\<close>

definition groupby_movie_id :: "rating list \<Rightarrow> (int \<times> rating list) list" where
  "groupby_movie_id rs =
     map (\<lambda>k. (k, filter (\<lambda>r. r_movie_id r = k) rs)) (sort (remdups (map r_movie_id rs)))"

definition group_size :: "(int \<times> rating list) list \<Rightarrow> (int \<times> real) list" where
  "group_size gs = map (\<lambda>(k, g). (k, real (length g))) gs"

definition group_mean_rating :: "(int \<times> rating list) list \<Rightarrow> (int \<times> real) list" where
  "group_mean_rating gs = map (\<lambda>(k, g). (k, np_mean (map r_rating g))) gs"

text \<open>
  The product of two Series over the same index (both come from the same \<open>groupby\<close>, so
  aligning on the index is pairing by position).
\<close>

definition series_mul :: "(int \<times> real) list \<Rightarrow> (int \<times> real) list \<Rightarrow> (int \<times> real) list" where
  "series_mul xs ys = map (\<lambda>((k, a), (_, b)). (k, a * b)) (zip xs ys)"

text \<open>
  \<open>sort_values(ascending=False)\<close>. pandas does not promise an order among equal values;
  the model keeps them in index order, and nothing below depends on that.
\<close>

definition sort_values_desc :: "(int \<times> real) list \<Rightarrow> (int \<times> real) list" where
  "sort_values_desc s = sort_key (\<lambda>(k, v). - v) s"

subsection \<open>Construction\<close>

text \<open>\<open>__init__\<close> up to and including \<open>_load_data\<close>.\<close>

definition load_data :: "db \<Rightarrow> engine" where
  "load_data d =
     \<lparr>movies_df = recommender_movie d, ratings_df = recommender_rating d,
      watchlist_df = Some (recommender_watchlist d),
      tfidf_vectorizer = None, tfidf_matrix = None, content_similarity = None,
      svd_model = None\<rparr>"

definition add_content :: "movie \<Rightarrow> movie" where
  "add_content m = m\<lparr>m_content := Some (fillna (m_genre m) @ '' '' @ fillna (m_overview m))\<rparr>"

definition build_content_model :: "lib \<Rightarrow> engine \<Rightarrow> cache_dir \<Rightarrow> (error + engine) \<times> cache_dir" where
  "build_content_model L e c =
     (case content_model_pkl c of
        Some f \<Rightarrow>
          (case pickle_load f of
             Inl err \<Rightarrow> (Inl err, c)
           | Inr cd \<Rightarrow>
               (Inr (e\<lparr>tfidf_vectorizer := Some (cd_vectorizer cd),
                       tfidf_matrix := Some (cd_matrix cd),
                       content_similarity := Some (cd_similarity cd)\<rparr>), c))
      | None \<Rightarrow>
          (let ms = map add_content (movies_df e)
           in case fit_transform L (map (\<lambda>m. fillna (m_content m)) ms) of
                Inl err \<Rightarrow> (Inl err, c)
              | Inr (v, X) \<Rightarrow>
                  (let S = cosine_similarity L X X;
                       cd = \<lparr>cd_vectorizer = v, cd_matrix = X, cd_similarity = S\<rparr>
                   in (Inr (e\<lparr>movies_df := ms, tfidf_vectorizer := Some v,
                               tfidf_matrix := Some X, content_similarity := Some S\<rparr>),
                       c\<lparr>content_model_pkl := Some (Pickle cd)\<rparr>))))"

definition build_collaborative_model ::
  "lib \<Rightarrow> engine \<Rightarrow> cache_dir \<Rightarrow> (error + engine) \<times> cache_dir" where
  "build_collaborative_model L e c =
     (case svd_model_pkl c of
        Some f \<Rightarrow>
          (case pickle_load f of
             Inl err \<Rightarrow> (Inl err, c)
           | Inr m \<Rightarrow> (Inr (e\<lparr>svd_model := Some m\<rparr>), c))
      | None \<Rightarrow>
          (if length (ratings_df e) < 100 then (Inr (e\<lparr>svd_model := None\<rparr>), c)
           else
             (case svd_fit L (ratings_df e) of
                Inl err \<Rightarrow> (Inl err, c)
              | Inr m \<Rightarrow> (Inr (e\<lparr>svd_model := Some m\<rparr>), c\<lparr>svd_model_pkl := Some (Pickle m)\<rparr>))))"

text \<open>
  \<open>HybridRecommender()\<close>: the result is the engine or the exception that escaped, together
  with the cache directory as the call left it.
\<close>

definition init :: "lib \<Rightarrow> db \<Rightarrow> cache_dir \<Rightarrow> (error + engine) \<times> cache_dir" where
  "init L d c =
     (case build_content_model L (load_data d) c of
        (Inl err, c') \<Rightarrow> (Inl err, c')
      | (Inr e, c') \<Rightarrow> build_collaborative_model L e c')"

subsection \<open>Scoring\<close>

text \<open>\<open>self.movies_df[self.movies_df['id'] == rated_movie_id].index\<close>\<close>

definition rated_idx :: "movie list \<Rightarrow> int \<Rightarrow> nat list" where
  "rated_idx ms rated_movie_id = map fst (filter (\<lambda>(i, m). m_id m = rated_movie_id) (enumerate 0 ms))"

text \<open>\<open>self.content_similarity[i, j]\<close>\<close>

definition similarity_at :: "engine \<Rightarrow> nat \<Rightarrow> nat \<Rightarrow> error + real" where
  "similarity_at e i j =
     (case content_similarity e of None \<Rightarrow> Inl TypeError | Some M \<Rightarrow> ndarray_get M i j)"

text \<open>The loop of \<open>_get_content_scores\<close>, which collects \<open>similarities\<close>.\<close>

fun similarities :: "engine \<Rightarrow> nat \<Rightarrow> int list \<Rightarrow> error + real list" where
  "similarities e movie_idx [] = Inr []"
| "similarities e movie_idx (rated_movie_id # rest) =
     (case rated_idx (movies_df e) rated_movie_id of
        [] \<Rightarrow> similarities e movie_idx rest
      | j # _ \<Rightarrow>
          (case similarity_at e movie_idx j of
             Inl err \<Rightarrow> Inl err
           | Inr sim \<Rightarrow>
               (case similarities e movie_idx rest of
                  Inl err \<Rightarrow> Inl err
                | Inr sims \<Rightarrow> Inr (sim # sims))))"

text \<open>\<open>rated_movies\<close> is falsy when it is \<open>None\<close> or empty; both are the empty list here.\<close>

definition get_content_scores :: "engine \<Rightarrow> nat \<Rightarrow> int list \<Rightarrow> error + real" where
  "get_content_scores e movie_idx rated_movies =
     (if rated_movies \<noteq> [] then
        (case similarities e movie_idx rated_movies of
           Inl err \<Rightarrow> Inl err
         | Inr sims \<Rightarrow> Inr (if sims \<noteq> [] then np_mean sims else 0))
      else Inr 0)"

definition get_collaborative_score :: "engine \<Rightarrow> int \<Rightarrow> int \<Rightarrow> real" where
  "get_collaborative_score e user_id movie_id =
     (case svd_model e of
        None \<Rightarrow> 3
      | Some m \<Rightarrow> (case m user_id movie_id of Inl _ \<Rightarrow> 3 | Inr est \<Rightarrow> est))"

definition is_in_watchlist :: "engine \<Rightarrow> int \<Rightarrow> int \<Rightarrow> bool" where
  "is_in_watchlist e user_id movie_id =
     (case watchlist_df e of
        None \<Rightarrow> False
      | Some ws \<Rightarrow> list_ex (\<lambda>w. w_user_id w = user_id \<and> w_movie_id w = movie_id) ws)"

text \<open>The body of the loop over \<open>unrated_movies.iterrows()\<close>.\<close>

definition score_movie :: "engine \<Rightarrow> int \<Rightarrow> int list \<Rightarrow> nat \<times> movie \<Rightarrow> error + recommendation" where
  "score_movie e user_id rated_movie_ids row =
     (let movie_id = m_id (snd row); movie_idx = fst row
      in case get_content_scores e movie_idx rated_movie_ids of
           Inl err \<Rightarrow> Inl err
         | Inr c \<Rightarrow>
             (let collab = get_collaborative_score e user_id movie_id;
                  content_score_normalized = c * 5;
                  hybrid = 0.4 * content_score_normalized + 0.6 * collab;
                  hybrid' = (if is_in_watchlist e user_id movie_id then hybrid + 0.2 else hybrid)
              in Inr \<lparr>rec_movie_id = movie_id, content_score = content_score_normalized,
                      collab_score = collab, hybrid_score = hybrid',
                      in_watchlist = is_in_watchlist e user_id movie_id\<rparr>))"

fun score_all :: "engine \<Rightarrow> int \<Rightarrow> int list \<Rightarrow> (nat \<times> movie) list \<Rightarrow> error + recommendation list" where
  "score_all e user_id rated_movie_ids [] = Inr []"
| "score_all e user_id rated_movie_ids (row # rows) =
     (case score_movie e user_id rated_movie_ids row of
        Inl err \<Rightarrow> Inl err
      | Inr r \<Rightarrow>
          (case score_all e user_id rated_movie_ids rows of
             Inl err \<Rightarrow> Inl err
           | Inr rs \<Rightarrow> Inr (r # rs)))"

subsection \<open>Recommendation\<close>

definition popularity :: "rating list \<Rightarrow> (int \<times> real) list" where
  "popularity rs =
     (let movie_ratings_count = group_size (groupby_movie_id rs);
          movie_avg_rating = group_mean_rating (groupby_movie_id rs)
      in sort_values_desc (series_mul movie_ratings_count movie_avg_rating))"

definition get_popular_movies :: "(nat \<Rightarrow> nat \<Rightarrow> nat list) \<Rightarrow> engine \<Rightarrow> int \<Rightarrow> error + int list" where
  "get_popular_movies choice e n =
     (if length (ratings_df e) = 0 then
        (case sample choice n (movies_df e) of
           Inl err \<Rightarrow> Inl err
         | Inr rows \<Rightarrow> Inr (map m_id rows))
      else Inr (map fst (py_take n (popularity (ratings_df e)))))"

definition unrated_movies :: "engine \<Rightarrow> int list \<Rightarrow> (nat \<times> movie) list" where
  "unrated_movies e rated_movie_ids =
     filter (\<lambda>(i, m). m_id m \<notin> set rated_movie_ids) (enumerate 0 (movies_df e))"

definition get_recommendations ::
  "(nat \<Rightarrow> nat \<Rightarrow> nat list) \<Rightarrow> engine \<Rightarrow> int \<Rightarrow> int \<Rightarrow> error + int list" where
  "get_recommendations choice e user_id n =
     (let user_ratings = filter (\<lambda>r. r_user_id r = user_id) (ratings_df e)
      in if length user_ratings = 0 then get_popular_movies choice e n
         else
           (let rated_movie_ids = map r_movie_id user_ratings
            in case score_all e user_id rated_movie_ids (unrated_movies e rated_movie_ids) of
                 Inl err \<Rightarrow> Inl err
               | Inr recommendations \<Rightarrow>
                   Inr (map rec_movie_id
                          (py_take n (sort_key (\<lambda>x. - hybrid_score x) recommendations)))))"

subsection \<open>Notions used to state the properties\<close>

text \<open>
  The similarity matrix covers the catalog: it has a row and a column for every row of
  \<open>movies_df\<close>. A matrix built from the same snapshot does; one loaded from an older
  cache file may not.
\<close>

definition sim_covers :: "engine \<Rightarrow> bool" where
  "sim_covers e =
     (case content_similarity e of
        None \<Rightarrow> False
      | Some M \<Rightarrow> length (movies_df e) \<le> shape0 M \<and> length (movies_df e) \<le> shape1 M)"

text \<open>The rated identifiers (one per rating) that occur in the item snapshot.\<close>

definition rated_in_snapshot :: "movie list \<Rightarrow> int list \<Rightarrow> int list" where
  "rated_in_snapshot ms rated = filter (\<lambda>rid. rid \<in> set (map m_id ms)) rated"

text \<open>The position of the first row of the snapshot with a given identifier.\<close>

definition position :: "movie list \<Rightarrow> int \<Rightarrow> nat" where
  "position ms rid = length (takeWhile (\<lambda>m. m_id m \<noteq> rid) ms)"

text \<open>
  The mean of the similarities between the candidate at position \<open>idx\<close> and the rated items
  found in the snapshot.
\<close>

definition mean_similarity :: "ndarray \<Rightarrow> movie list \<Rightarrow> nat \<Rightarrow> int list \<Rightarrow> real" where
  "mean_similarity M ms idx rated =
     sum_list (map (\<lambda>rid. item M idx (position ms rid)) (rated_in_snapshot ms rated))
       / real (length (rated_in_snapshot ms rated))"

text \<open>
  A model that answers like \<open>m\<close> where \<open>m\<close> predicts and 3.0 where \<open>m\<close> raises.
\<close>

definition neutral :: "svd \<Rightarrow> svd" where
  "neutral m = (\<lambda>u i. case m u i of Inl _ \<Rightarrow> Inr 3 | Inr est \<Rightarrow> Inr est)"





text \<open>The content model an engine holds, once all three attributes are set.\<close>

definition content_of :: "engine \<Rightarrow> cache_data option" where
  "content_of e =
     (case (tfidf_vectorizer e, tfidf_matrix e, content_similarity e) of
        (Some v, Some X, Some S) \<Rightarrow> Some \<lparr>cd_vectorizer = v, cd_matrix = X, cd_similarity = S\<rparr>
      | _ \<Rightarrow> None)"

text \<open>The two quantities of the popularity ranking, read off the rating snapshot.\<close>

definition rating_count :: "rating list \<Rightarrow> int \<Rightarrow> nat" where
  "rating_count rs k = length (filter (\<lambda>r. r_movie_id r = k) rs)"

definition mean_rating :: "rating list \<Rightarrow> int \<Rightarrow> real" where
  "mean_rating rs k =
     sum_list (map r_rating (filter (\<lambda>r. r_movie_id r = k) rs)) / real (rating_count rs k)"

subsection \<open>Example states\<close>

definition mk_movie :: "int \<Rightarrow> movie" where
  "mk_movie i =
     \<lparr>m_id = i, m_title = [], m_genre = None, m_overview = None, m_tmdb_id = None,
      m_content = None\<rparr>"

definition mk_rating :: "int \<Rightarrow> int \<Rightarrow> real \<Rightarrow> rating" where
  "mk_rating u m v = \<lparr>r_id = 0, r_user_id = u, r_movie_id = m, r_rating = v, r_timestamp = 0\<rparr>"


text \<open>
  The scenario of the specification: catalog A, B, C (ids 1, 2, 3), user 1 has rated A with
  4.5, similarity(A, B) = 0.8, similarity(A, C) = 0.1, no collaborative model.
\<close>

definition ex_sim :: ndarray where
  "ex_sim =
     \<lparr>shape0 = 3, shape1 = 3,
      item = (\<lambda>i j. if i = j then 1 else if i + j = 1 then 0.8 else if i + j = 2 then 0.1 else 0)\<rparr>"

definition ex_engine :: engine where
  "ex_engine =
     \<lparr>movies_df = [mk_movie 1, mk_movie 2, mk_movie 3],
      ratings_df = [mk_rating 1 1 4.5],
      watchlist_df = Some [],
      tfidf_vectorizer = None, tfidf_matrix = None, content_similarity = Some ex_sim,
      svd_model = None\<rparr>"

text \<open>The same engine over an empty rating table.\<close>

definition ex_no_ratings :: engine where
  "ex_no_ratings = ex_engine\<lparr>ratings_df := []\<rparr>"


text \<open>Two generators: one draws the first \<open>k\<close> rows, the other the last \<open>k\<close>.\<close>

definition draw_first :: "nat \<Rightarrow> nat \<Rightarrow> nat list" where
  "draw_first len k = [0..<k]"

definition draw_last :: "nat \<Rightarrow> nat \<Rightarrow> nat list" where
  "draw_last len k = map (\<lambda>i. len - 1 - i) [0..<k]"

text \<open>A model that cannot predict item 2 and predicts 4 for every other item.\<close>

definition ex_svd :: svd where
  "ex_svd = (\<lambda>u i. if i = 2 then Inl PredictionImpossible else Inr 4)"

definition ex_engine_svd :: engine where
  "ex_engine_svd = ex_engine\<lparr>svd_model := Some ex_svd\<rparr>"

text \<open>Stand-ins for the library calls, a database and cache directories.\<close>

definition ex_lib :: lib where
  "ex_lib =
     \<lparr>fit_transform =
        (\<lambda>docs. Inr (docs, \<lparr>shape0 = length docs, shape1 = 0, item = (\<lambda>i j. 0)\<rparr>)),
      cosine_similarity =
        (\<lambda>X Y. \<lparr>shape0 = shape0 X, shape1 = shape0 Y, item = (\<lambda>i j. if i = j then 1 else 0)\<rparr>),
      svd_fit = (\<lambda>rs. Inr (\<lambda>u i. Inr 3))\<rparr>"

definition ex_db :: db where
  "ex_db =
     \<lparr>recommender_movie = [mk_movie 1, mk_movie 2, mk_movie 3],
      recommender_rating = [mk_rating 1 1 4.5],
      recommender_watchlist = []\<rparr>"


definition empty_cache :: cache_dir where
  "empty_cache = \<lparr>content_model_pkl = None, svd_model_pkl = None\<rparr>"

definition ex_cache_data :: cache_data where
  "ex_cache_data = \<lparr>cd_vectorizer = [], cd_matrix = ex_sim, cd_similarity = ex_sim\<rparr>"

definition full_cache :: cache_dir where
  "full_cache =
     \<lparr>content_model_pkl = Some (Pickle ex_cache_data), svd_model_pkl = Some (Pickle ex_svd)\<rparr>"

text \<open>The engine that a construction loads from \<open>full_cache\<close> over \<open>ex_db\<close>.\<close>

definition ex_loaded :: engine where
  "ex_loaded =
     \<lparr>movies_df = recommender_movie ex_db,
      ratings_df = recommender_rating ex_db,
      watchlist_df = Some [],
      tfidf_vectorizer = Some [], tfidf_matrix = Some ex_sim, content_similarity = Some ex_sim,
      svd_model = Some ex_svd\<rparr>"





definition failing_lib :: lib where
  "failing_lib = ex_lib\<lparr>fit_transform := (\<lambda>docs. Inl ValueError), svd_fit := (\<lambda>rs. Inl ValueError)\<rparr>"

text \<open>
  Ratings by users 1, 2 and 3: item 1 has two ratings of mean 4, item 3 one rating of 5,
  item 2 one rating of 2.
\<close>

definition ex_popular :: engine where
  "ex_popular =
     ex_engine\<lparr>ratings_df :=
       [mk_rating 1 1 4.5, mk_rating 2 3 5, mk_rating 3 2 2, mk_rating 2 1 3.5]\<rparr>"

section \<open>Properties\<close>

subsection \<open>Auxiliary facts\<close>

lemma py_take_subset: "set (py_take n xs) \<subseteq> set xs"
  by (auto simp: py_take_def dest: in_set_takeD)

lemma py_take_nonneg: "0 \<le> n \<Longrightarrow> py_take n xs = take (nat n) xs"
  by (simp add: py_take_def)

lemma py_take_prefix: "\<exists>k. py_take n xs = take k xs \<and> (0 \<le> n \<longrightarrow> k = nat n)"
  by (auto simp: py_take_def)

lemma score_movie_id: "score_movie e uid rated row = Inr r \<Longrightarrow> rec_movie_id r = m_id (snd row)"
  by (auto simp: score_movie_def Let_def split: sum.splits)

lemma score_all_ids:
  "score_all e uid rated rows = Inr recs \<Longrightarrow>
     map rec_movie_id recs = map (\<lambda>row. m_id (snd row)) rows"
proof (induction rows arbitrary: recs)
  case Nil
  then show ?case by simp
next
  case (Cons row rows)
  then show ?case
    by (auto split: sum.splits dest: score_movie_id)
qed

lemma unrated_movies_ids:
  "map (\<lambda>row. m_id (snd row)) (unrated_movies e rated) =
     filter (\<lambda>i. i \<notin> set rated) (map m_id (movies_df e))"
proof -
  have "map snd (filter (\<lambda>(i, m). m_id m \<notin> set rated) (enumerate k ms)) =
        filter (\<lambda>m. m_id m \<notin> set rated) ms" for k and ms :: "movie list"
    by (induction ms arbitrary: k) auto
  then have "map snd (unrated_movies e rated) = filter (\<lambda>m. m_id m \<notin> set rated) (movies_df e)"
    by (simp add: unrated_movies_def)
  then have "map m_id (map snd (unrated_movies e rated)) =
             map m_id (filter (\<lambda>m. m_id m \<notin> set rated) (movies_df e))"
    by simp
  then show ?thesis
    by (simp add: filter_map comp_def)
qed

text \<open>What a successful call returns when the user has ratings.\<close>

lemma hybrid_result:
  assumes "filter (\<lambda>r. r_user_id r = uid) (ratings_df e) \<noteq> []"
      and "get_recommendations choice e uid n = Inr res"
  obtains recs where
    "score_all e uid (map r_movie_id (filter (\<lambda>r. r_user_id r = uid) (ratings_df e)))
       (unrated_movies e (map r_movie_id (filter (\<lambda>r. r_user_id r = uid) (ratings_df e))))
     = Inr recs"
    "res = map rec_movie_id (py_take n (sort_key (\<lambda>x. - hybrid_score x) recs))"
  using assms by (auto simp: get_recommendations_def Let_def split: sum.splits)

subsection \<open>The hybrid path\<close>

text \<open>
  C2: on the hybrid path (the requesting user has at least one rating in the snapshot), no
  identifier of the returned list is an item that user has rated.
\<close>

theorem hybrid_excludes_rated:
  assumes "\<exists>r \<in> set (ratings_df e). r_user_id r = uid"
      and "get_recommendations choice e uid n = Inr res"
  shows "\<forall>r \<in> set (ratings_df e). r_user_id r = uid \<longrightarrow> r_movie_id r \<notin> set res"
proof -
  let ?rated = "map r_movie_id (filter (\<lambda>r. r_user_id r = uid) (ratings_df e))"
  from assms(1) have ne: "filter (\<lambda>r. r_user_id r = uid) (ratings_df e) \<noteq> []"
    by (auto simp: filter_empty_conv)
  from ne assms(2) obtain recs where
    sc: "score_all e uid ?rated (unrated_movies e ?rated) = Inr recs" and
    res: "res = map rec_movie_id (py_take n (sort_key (\<lambda>x. - hybrid_score x) recs))"
    by (rule hybrid_result)
  have "set res \<subseteq> set (map rec_movie_id recs)"
    using py_take_subset[of n "sort_key (\<lambda>x. - hybrid_score x) recs"] by (auto simp: res)
  also have "map rec_movie_id recs = filter (\<lambda>i. i \<notin> set ?rated) (map m_id (movies_df e))"
    using score_all_ids[OF sc] unrated_movies_ids by simp
  finally have "set res \<inter> set ?rated = {}" by auto
  then show ?thesis by force
qed

theorem hybrid_excludes_rated_witness:
  "mk_rating 1 1 4.5 \<in> set (ratings_df ex_engine)
   \<and> get_recommendations draw_first ex_engine 1 2 = Inr [2, 3]
   \<and> r_movie_id (mk_rating 1 1 4.5) \<notin> set [2, 3 :: int]"
proof -
  have h1: "\<exists>r \<in> set (ratings_df ex_engine). r_user_id r = 1"
    by (simp add: ex_engine_def mk_rating_def)
  have h2: "get_recommendations draw_first ex_engine 1 2 = Inr [2, 3]"
    by code_simp
  have h3: "mk_rating 1 1 4.5 \<in> set (ratings_df ex_engine)"
    by (simp add: ex_engine_def)
  have h4: "r_user_id (mk_rating 1 1 4.5) = 1"
    by (simp add: mk_rating_def)
  from hybrid_excludes_rated[OF h1 h2] h3 h4
  have "r_movie_id (mk_rating 1 1 4.5) \<notin> set [2, 3 :: int]" by blast
  with h2 h3 show ?thesis by blast
qed



subsection \<open>Determinism\<close>

text \<open>
  C10: over a non-empty rating snapshot the result of \<open>get_recommendations\<close> is a function
  of the engine state, the user and \<open>n\<close>: it does not depend on the random generator. The
  generator matters only in the fallback over an empty rating snapshot, where two draws
  give two results.
\<close>

theorem recommendations_deterministic:
  "(ratings_df e \<noteq> [] \<longrightarrow>
      get_recommendations choice1 e uid n = get_recommendations choice2 e uid n)
   \<and> ratings_df ex_no_ratings = []
   \<and> get_recommendations draw_first ex_no_ratings 1 1 = Inr [1]
   \<and> get_recommendations draw_last ex_no_ratings 1 1 = Inr [3]"
proof -
  have "get_recommendations choice1 e uid n = get_recommendations choice2 e uid n"
    if "ratings_df e \<noteq> []"
    using that by (simp add: get_recommendations_def get_popular_movies_def Let_def)
  moreover have "ratings_df ex_no_ratings = []"
    by (simp add: ex_no_ratings_def)
  moreover have "get_recommendations draw_first ex_no_ratings 1 1 = Inr [1]"
    by code_simp
  moreover have "get_recommendations draw_last ex_no_ratings 1 1 = Inr [3]"
    by code_simp
  ultimately show ?thesis by blast
qed

theorem recommendations_deterministic_witness:
  "ratings_df ex_engine \<noteq> []
   \<and> get_recommendations draw_first ex_engine 1 2 = get_recommendations draw_last ex_engine 1 2"
proof -
  have h: "ratings_df ex_engine \<noteq> []"
    by (simp add: ex_engine_def)
  from recommendations_deterministic[of ex_engine draw_first 1 2 draw_last] h
  show ?thesis by blast
qed

subsection \<open>Scoring one candidate\<close>

lemma rated_idx_enumerate:
  "map fst (filter (\<lambda>(i, m). m_id m = rid) (enumerate k ms)) =
     (if rid \<in> set (map m_id ms)
      then (k + length (takeWhile (\<lambda>m. m_id m \<noteq> rid) ms))
             # map fst (filter (\<lambda>(i, m). m_id m = rid)
                 (enumerate (Suc (k + length (takeWhile (\<lambda>m. m_id m \<noteq> rid) ms)))
                    (tl (dropWhile (\<lambda>m. m_id m \<noteq> rid) ms))))
      else [])"
  by (induction ms arbitrary: k) auto

lemma rated_idx_found:
  assumes "rid \<in> set (map m_id ms)"
  obtains js where "rated_idx ms rid = position ms rid # js" and "position ms rid < length ms"
proof -
  have "length (takeWhile (\<lambda>m. m_id m \<noteq> rid) xs) < length xs"
    if "rid \<in> set (map m_id xs)" for xs :: "movie list"
    using that by (induction xs) auto
  with assms have "position ms rid < length ms"
    by (simp add: position_def)
  moreover have "\<exists>js. rated_idx ms rid = position ms rid # js"
    unfolding rated_idx_def position_def using assms rated_idx_enumerate[of rid 0 ms] by simp
  ultimately show ?thesis using that by blast
qed

lemma rated_idx_missing: "rid \<notin> set (map m_id ms) \<Longrightarrow> rated_idx ms rid = []"
  unfolding rated_idx_def using rated_idx_enumerate[of rid 0 ms] by simp

lemma similarities_none_found:
  "rated_in_snapshot (movies_df e) rated = [] \<Longrightarrow> similarities e idx rated = Inr []"
proof (induction rated)
  case Nil
  then show ?case by simp
next
  case (Cons rid rest)
  then have "rid \<notin> set (map m_id (movies_df e))" and "rated_in_snapshot (movies_df e) rest = []"
    by (auto simp: rated_in_snapshot_def split: if_splits)
  with Cons.IH show ?case by (simp add: rated_idx_missing)
qed

lemma similarities_covered:
  assumes "content_similarity e = Some M" and "idx < shape0 M" and "length (movies_df e) \<le> shape1 M"
  shows "similarities e idx rated =
           Inr (map (\<lambda>rid. item M idx (position (movies_df e) rid))
                  (rated_in_snapshot (movies_df e) rated))"
proof (induction rated)
  case Nil
  then show ?case by (simp add: rated_in_snapshot_def)
next
  case (Cons rid rest)
  show ?case
  proof (cases "rid \<in> set (map m_id (movies_df e))")
    case True
    then obtain js where js: "rated_idx (movies_df e) rid = position (movies_df e) rid # js"
      and lt: "position (movies_df e) rid < length (movies_df e)"
      by (rule rated_idx_found)
    have "similarity_at e idx (position (movies_df e) rid) = Inr (item M idx (position (movies_df e) rid))"
      using assms lt by (simp add: similarity_at_def ndarray_get_def)
    with js Cons.IH True show ?thesis
      by (simp add: rated_in_snapshot_def)
  next
    case False
    with Cons.IH show ?thesis
      by (simp add: rated_idx_missing rated_in_snapshot_def)
  qed
qed

lemma get_content_scores_none_found:
  "rated_in_snapshot (movies_df e) rated = [] \<Longrightarrow> get_content_scores e idx rated = Inr 0"
  by (simp add: get_content_scores_def similarities_none_found)

lemma get_content_scores_covered:
  assumes "content_similarity e = Some M" and "idx < shape0 M" and "length (movies_df e) \<le> shape1 M"
  shows "get_content_scores e idx rated =
           Inr (if rated_in_snapshot (movies_df e) rated = [] then 0
                else mean_similarity M (movies_df e) idx rated)"
proof (cases "rated = []")
  case True
  then show ?thesis by (simp add: get_content_scores_def rated_in_snapshot_def)
next
  case False
  then show ?thesis
    by (simp add: get_content_scores_def similarities_covered[OF assms] mean_similarity_def np_mean_def)
qed

text \<open>
  C4: the content score of a candidate is the mean of the similarities between the
  candidate and the rated items found in the item snapshot (one term per rating of the
  user), multiplied by 5; when none of
  the rated items is found, it is 0 and no error is raised.
\<close>

theorem content_score_scaled_mean:
  "(rated_in_snapshot (movies_df e) rated = [] \<longrightarrow>
      get_content_scores e idx rated = Inr 0
      \<and> (\<exists>r. score_movie e uid rated (idx, m) = Inr r \<and> content_score r = 0))
   \<and> (content_similarity e = Some M \<and> idx < shape0 M \<and> length (movies_df e) \<le> shape1 M
        \<and> rated_in_snapshot (movies_df e) rated \<noteq> [] \<longrightarrow>
      get_content_scores e idx rated = Inr (mean_similarity M (movies_df e) idx rated)
      \<and> (\<exists>r. score_movie e uid rated (idx, m) = Inr r
             \<and> content_score r = mean_similarity M (movies_df e) idx rated * 5))"
proof (intro conjI impI)
  assume a: "rated_in_snapshot (movies_df e) rated = []"
  show "get_content_scores e idx rated = Inr 0"
    using a by (rule get_content_scores_none_found)
  then show "\<exists>r. score_movie e uid rated (idx, m) = Inr r \<and> content_score r = 0"
    by (simp add: score_movie_def Let_def)
next
  assume a: "content_similarity e = Some M \<and> idx < shape0 M \<and> length (movies_df e) \<le> shape1 M
        \<and> rated_in_snapshot (movies_df e) rated \<noteq> []"
  then show g: "get_content_scores e idx rated = Inr (mean_similarity M (movies_df e) idx rated)"
    using get_content_scores_covered[of e M idx rated] by simp
  show "\<exists>r. score_movie e uid rated (idx, m) = Inr r
             \<and> content_score r = mean_similarity M (movies_df e) idx rated * 5"
    using g by (simp add: score_movie_def Let_def)
qed


theorem content_score_scaled_mean_witness:
  "rated_in_snapshot (movies_df ex_no_ratings) [7] = []
   \<and> get_content_scores ex_no_ratings 1 [7] = Inr 0
   \<and> content_similarity ex_engine = Some ex_sim
   \<and> 1 < shape0 ex_sim \<and> length (movies_df ex_engine) \<le> shape1 ex_sim
   \<and> rated_in_snapshot (movies_df ex_engine) [1] = [1]
   \<and> get_content_scores ex_engine 1 [1] = Inr (mean_similarity ex_sim (movies_df ex_engine) 1 [1])
   \<and> mean_similarity ex_sim (movies_df ex_engine) 1 [1] * 5 = 4"
proof -
  have h1: "rated_in_snapshot (movies_df ex_no_ratings) [7] = []"
    by code_simp
  have h2: "content_similarity ex_engine = Some ex_sim"
    by (simp add: ex_engine_def)
  have h3: "1 < shape0 ex_sim" "length (movies_df ex_engine) \<le> shape1 ex_sim"
    by (simp_all add: ex_sim_def ex_engine_def)
  have h4: "rated_in_snapshot (movies_df ex_engine) [1] = [1]"
    by code_simp
  have h5: "mean_similarity ex_sim (movies_df ex_engine) 1 [1] * 5 = 4"
    by code_simp
  from content_score_scaled_mean[of ex_no_ratings "[7]" 1 0 "mk_movie 2"] h1
  have a: "get_content_scores ex_no_ratings 1 [7] = Inr 0" by blast
  from content_score_scaled_mean[of ex_engine "[1]" 1 1 "mk_movie 2" ex_sim] h2 h3 h4
  have b: "get_content_scores ex_engine 1 [1] = Inr (mean_similarity ex_sim (movies_df ex_engine) 1 [1])"
    by simp
  from a b h1 h2 h3 h4 h5 show ?thesis by blast
qed


subsection \<open>The collaborative score\<close>

lemma get_content_scores_total:
  assumes "sim_covers e" and "idx < length (movies_df e)"
  shows "\<exists>c. get_content_scores e idx rated = Inr c"
proof -
  from assms(1) obtain M where M: "content_similarity e = Some M"
    and "length (movies_df e) \<le> shape0 M" and c: "length (movies_df e) \<le> shape1 M"
    by (auto simp: sim_covers_def split: option.splits)
  with assms(2) have "idx < shape0 M" by simp
  from get_content_scores_covered[OF M this c] show ?thesis by blast
qed

lemma score_movie_total:
  assumes "sim_covers e" and "fst row < length (movies_df e)"
  shows "\<exists>r. score_movie e uid rated row = Inr r"
  using get_content_scores_total[OF assms, of rated]
  by (auto simp: score_movie_def Let_def)

lemma score_all_total:
  assumes "sim_covers e" and "\<forall>row \<in> set rows. fst row < length (movies_df e)"
  shows "\<exists>recs. score_all e uid rated rows = Inr recs"
  using assms(2)
proof (induction rows)
  case Nil
  then show ?case by simp
next
  case (Cons row rows)
  then obtain recs where "score_all e uid rated rows = Inr recs" by auto
  moreover from Cons.prems obtain r where "score_movie e uid rated row = Inr r"
    using score_movie_total[OF assms(1), of row uid rated] by auto
  ultimately show ?case by simp
qed

lemma unrated_movies_in_range:
  "\<forall>row \<in> set (unrated_movies e rated). fst row < length (movies_df e)"
  by (auto simp: unrated_movies_def in_set_enumerate_eq)

lemma hybrid_path_total:
  assumes "sim_covers e" and "\<exists>r \<in> set (ratings_df e). r_user_id r = uid"
  shows "\<exists>res. get_recommendations choice e uid n = Inr res"
proof -
  let ?rated = "map r_movie_id (filter (\<lambda>r. r_user_id r = uid) (ratings_df e))"
  from assms(2) have ne: "filter (\<lambda>r. r_user_id r = uid) (ratings_df e) \<noteq> []"
    by (auto simp: filter_empty_conv)
  obtain recs where "score_all e uid ?rated (unrated_movies e ?rated) = Inr recs"
    using score_all_total[OF assms(1) unrated_movies_in_range] by blast
  with ne show ?thesis
    by (simp add: get_recommendations_def Let_def)
qed

lemma similarities_svd: "similarities (e\<lparr>svd_model := x\<rparr>) idx rated = similarities e idx rated"
  by (induction rated) (auto simp: similarity_at_def split: list.splits sum.splits)

lemma get_content_scores_svd:
  "get_content_scores (e\<lparr>svd_model := x\<rparr>) idx rated = get_content_scores e idx rated"
  by (simp add: get_content_scores_def similarities_svd)

lemma get_collaborative_score_neutral:
  "get_collaborative_score (e\<lparr>svd_model := Some (neutral m)\<rparr>) uid mid =
   get_collaborative_score (e\<lparr>svd_model := Some m\<rparr>) uid mid"
  by (simp add: get_collaborative_score_def neutral_def split: sum.splits)

lemma score_movie_neutral:
  "score_movie (e\<lparr>svd_model := Some (neutral m)\<rparr>) uid rated row =
   score_movie (e\<lparr>svd_model := Some m\<rparr>) uid rated row"
  by (simp add: score_movie_def get_content_scores_svd get_collaborative_score_neutral
      is_in_watchlist_def Let_def cong: sum.case_cong)

lemma score_all_neutral:
  "score_all (e\<lparr>svd_model := Some (neutral m)\<rparr>) uid rated rows =
   score_all (e\<lparr>svd_model := Some m\<rparr>) uid rated rows"
  by (induction rows) (simp_all add: score_movie_neutral cong: sum.case_cong)

lemma get_recommendations_neutral:
  "get_recommendations choice (e\<lparr>svd_model := Some (neutral m)\<rparr>) uid n =
   get_recommendations choice (e\<lparr>svd_model := Some m\<rparr>) uid n"
  by (simp add: get_recommendations_def score_all_neutral unrated_movies_def
      get_popular_movies_def Let_def)

text \<open>
  C5, as the code has it: the collaborative score is 3.0 when the model is absent and when
  prediction raises; a build that finds no cached model and fewer than 100 ratings leaves
  the model absent; on the hybrid path the ranking pass returns a list whatever the model
  does, and a model that raises for an item is ranked exactly like a model that predicts
  3.0 for it.
\<close>

theorem collaborative_neutral_default:
  "(svd_model e = None \<longrightarrow> get_collaborative_score e uid mid = 3)
   \<and> (svd_model e = Some m \<and> m uid mid = Inl err \<longrightarrow> get_collaborative_score e uid mid = 3)
   \<and> (svd_model_pkl c = None \<and> length (ratings_df e) < 100 \<longrightarrow>
        build_collaborative_model L e c = (Inr (e\<lparr>svd_model := None\<rparr>), c))
   \<and> (sim_covers e \<and> (\<exists>r \<in> set (ratings_df e). r_user_id r = uid) \<longrightarrow>
        (\<exists>res. get_recommendations choice e uid n = Inr res))
   \<and> get_recommendations choice (e\<lparr>svd_model := Some m\<rparr>) uid n =
       get_recommendations choice (e\<lparr>svd_model := Some (neutral m)\<rparr>) uid n"
proof (intro conjI impI)
  show "get_collaborative_score e uid mid = 3" if "svd_model e = None"
    using that by (simp add: get_collaborative_score_def)
  show "get_collaborative_score e uid mid = 3" if "svd_model e = Some m \<and> m uid mid = Inl err"
    using that by (simp add: get_collaborative_score_def)
  show "build_collaborative_model L e c = (Inr (e\<lparr>svd_model := None\<rparr>), c)"
    if "svd_model_pkl c = None \<and> length (ratings_df e) < 100"
    using that by (simp add: build_collaborative_model_def)
  show "\<exists>res. get_recommendations choice e uid n = Inr res"
    if "sim_covers e \<and> (\<exists>r \<in> set (ratings_df e). r_user_id r = uid)"
    using that hybrid_path_total by blast
  show "get_recommendations choice (e\<lparr>svd_model := Some m\<rparr>) uid n =
       get_recommendations choice (e\<lparr>svd_model := Some (neutral m)\<rparr>) uid n"
    by (simp add: get_recommendations_neutral)
qed
theorem collaborative_neutral_default_witness:
  "svd_model ex_engine = None \<and> get_collaborative_score ex_engine 1 2 = 3
   \<and> svd_model ex_engine_svd = Some ex_svd \<and> ex_svd 1 2 = Inl PredictionImpossible
   \<and> get_collaborative_score ex_engine_svd 1 2 = 3
   \<and> svd_model_pkl empty_cache = None \<and> length (ratings_df ex_engine) < 100
   \<and> build_collaborative_model ex_lib ex_engine empty_cache =
        (Inr (ex_engine\<lparr>svd_model := None\<rparr>), empty_cache)
   \<and> sim_covers ex_engine_svd \<and> mk_rating 1 1 4.5 \<in> set (ratings_df ex_engine_svd)
   \<and> get_recommendations draw_first ex_engine_svd 1 2 = Inr [2, 3]"
proof -
  have h1: "svd_model ex_engine = None"
    by (simp add: ex_engine_def)
  have h2: "svd_model ex_engine_svd = Some ex_svd \<and> ex_svd 1 2 = Inl PredictionImpossible"
    by (simp add: ex_engine_svd_def ex_svd_def)
  have h3: "svd_model_pkl empty_cache = None \<and> length (ratings_df ex_engine) < 100"
    by (simp add: empty_cache_def ex_engine_def)
  have h4: "sim_covers ex_engine_svd"
    by (simp add: sim_covers_def ex_engine_svd_def ex_engine_def ex_sim_def)
  have h5: "mk_rating 1 1 4.5 \<in> set (ratings_df ex_engine_svd)"
    by (simp add: ex_engine_svd_def ex_engine_def)
  have h6: "r_user_id (mk_rating 1 1 4.5) = 1"
    by (simp add: mk_rating_def)
  have h7: "get_recommendations draw_first ex_engine_svd 1 2 = Inr [2, 3]"
    by code_simp
  note c = collaborative_neutral_default
  from c[of ex_engine 1 2] h1
  have a: "get_collaborative_score ex_engine 1 2 = 3" by blast
  from c[of ex_engine_svd 1 2 ex_svd PredictionImpossible] h2
  have b: "get_collaborative_score ex_engine_svd 1 2 = 3" by blast
  from c[where c = empty_cache and e = ex_engine and L = ex_lib] h3
  have d: "build_collaborative_model ex_lib ex_engine empty_cache =
        (Inr (ex_engine\<lparr>svd_model := None\<rparr>), empty_cache)" by blast
  from a b d h1 h2 h3 h4 h5 h7 show ?thesis by blast
qed

text \<open>
  C5 as stated fails: a rating snapshot of fewer than 100 rows does not by itself leave the
  model absent. Over a cache that holds a collaborative model, construction from a
  snapshot of one rating loads that model, and the collaborative score of user 1 for item
  3 is the model's prediction 4.
\<close>

theorem cached_model_used_below_threshold:
  "length (recommender_rating ex_db) = 1
   \<and> svd_model_pkl full_cache = Some (Pickle ex_svd)
   \<and> init ex_lib ex_db full_cache = (Inr ex_loaded, full_cache)
   \<and> svd_model ex_loaded = Some ex_svd
   \<and> get_collaborative_score ex_loaded 1 3 = 4"
  by (simp add: init_def build_content_model_def build_collaborative_model_def load_data_def
      pickle_load_def full_cache_def ex_cache_data_def ex_loaded_def ex_db_def
      get_collaborative_score_def ex_svd_def)

subsection \<open>Construction and the model cache\<close>

lemma content_of_loaded:
  "content_of (e\<lparr>tfidf_vectorizer := Some (cd_vectorizer cd), tfidf_matrix := Some (cd_matrix cd),
                 content_similarity := Some (cd_similarity cd)\<rparr>) = Some cd"
  by (simp add: content_of_def)

lemma content_of_svd [simp]: "content_of (e\<lparr>svd_model := x\<rparr>) = content_of e"
  by (simp add: content_of_def)






text \<open>A build that raises surfaces to the caller, and nothing is saved.\<close>

lemma failing_build_raises: "init failing_lib ex_db empty_cache = (Inl ValueError, empty_cache)"
  by (simp add: init_def build_content_model_def failing_lib_def ex_lib_def empty_cache_def Let_def)








subsection \<open>The cold-start path\<close>

lemma series_mul_groups:
  "series_mul (group_size gs) (group_mean_rating gs) =
     map (\<lambda>(k, g). (k, real (length g) * np_mean (map r_rating g))) gs"
  by (induction gs) (auto simp: series_mul_def group_size_def group_mean_rating_def)

lemma popularity_eq:
  "popularity rs =
     sort_key (\<lambda>(k, v). - v)
       (map (\<lambda>k. (k, real (rating_count rs k) * mean_rating rs k))
          (sort (remdups (map r_movie_id rs))))"
  by (simp add: popularity_def series_mul_groups sort_values_desc_def groupby_movie_id_def
      rating_count_def mean_rating_def np_mean_def comp_def Let_def)

lemma popularity_keys: "mset (map fst (popularity rs)) = mset (remdups (map r_movie_id rs))"
  unfolding popularity_eq by (simp add: image_mset.compositionality comp_def)

lemma popularity_distinct: "distinct (map fst (popularity rs))"
  using popularity_keys[of rs] by (metis distinct_remdups mset_eq_imp_distinct_iff)

lemma popularity_set: "set (map fst (popularity rs)) = r_movie_id ` set rs"
  using popularity_keys[of rs] by (metis mset_eq_setD set_map set_remdups)

lemma popularity_sorted: "sorted_wrt (\<lambda>a b. snd a \<ge> snd b) (popularity rs)"
proof -
  have "sorted (map (\<lambda>(k, v). - v) (popularity rs))"
    unfolding popularity_eq by (rule sorted_sort_key)
  then show ?thesis
    by (simp add: sorted_map case_prod_unfold)
qed

lemma popularity_values:
  "(k, v) \<in> set (popularity rs) \<Longrightarrow> v = real (rating_count rs k) * mean_rating rs k"
  unfolding popularity_eq by auto

lemma cold_start_result:
  assumes "filter (\<lambda>r. r_user_id r = uid) (ratings_df e) = []"
  shows "get_recommendations choice e uid n = get_popular_movies choice e n"
  using assms by (simp add: get_recommendations_def)

text \<open>
  C6, as the code has it: a user without ratings in the snapshot (a user the snapshot does
  not know included) gets, for \<open>n \<ge> 0\<close>, the first \<open>n\<close> identifiers of a ranking of the
  items that have at least one rating, by descending rating count times mean rating; over
  an empty rating snapshot, and for \<open>n\<close> up to the size of the catalog, the identifiers of
  \<open>n\<close> distinct catalog rows drawn by the generator.
\<close>

theorem cold_start_popularity:
  assumes "\<forall>r \<in> set (ratings_df e). r_user_id r \<noteq> uid"
  shows "(ratings_df e \<noteq> [] \<longrightarrow>
           (\<exists>(ranking :: (int \<times> real) list) k.
              get_recommendations choice e uid n = Inr (take k (map fst ranking))
              \<and> (0 \<le> n \<longrightarrow> k = nat n)
              \<and> distinct (map fst ranking)
              \<and> set (map fst ranking) = r_movie_id ` set (ratings_df e)
              \<and> (\<forall>(i, v) \<in> set ranking.
                    v = real (rating_count (ratings_df e) i) * mean_rating (ratings_df e) i)
              \<and> sorted_wrt (\<lambda>a b. snd a \<ge> snd b) ranking))
       \<and> (ratings_df e = [] \<and> 0 \<le> n \<and> n \<le> int (length (movies_df e))
            \<and> valid_choice choice (length (movies_df e)) (nat n) \<longrightarrow>
           (\<exists>idxs. get_recommendations choice e uid n = Inr (map (\<lambda>i. m_id (movies_df e ! i)) idxs)
              \<and> length idxs = nat n \<and> distinct idxs
              \<and> (\<forall>i \<in> set idxs. i < length (movies_df e))))"
proof (intro conjI impI)
  from assms have cold: "filter (\<lambda>r. r_user_id r = uid) (ratings_df e) = []"
    by (simp add: filter_empty_conv)
  {
    assume ne: "ratings_df e \<noteq> []"
    let ?ranking = "popularity (ratings_df e)"
    obtain k where k: "py_take n ?ranking = take k ?ranking" "0 \<le> n \<longrightarrow> k = nat n"
      using py_take_prefix by blast
    have "get_recommendations choice e uid n = Inr (take k (map fst ?ranking))"
      using ne k(1) by (simp add: cold_start_result[OF cold] get_popular_movies_def take_map)
    moreover have "\<forall>(i, v) \<in> set ?ranking.
        v = real (rating_count (ratings_df e) i) * mean_rating (ratings_df e) i"
      using popularity_values by blast
    ultimately show "\<exists>(ranking :: (int \<times> real) list) k.
              get_recommendations choice e uid n = Inr (take k (map fst ranking))
              \<and> (0 \<le> n \<longrightarrow> k = nat n)
              \<and> distinct (map fst ranking)
              \<and> set (map fst ranking) = r_movie_id ` set (ratings_df e)
              \<and> (\<forall>(i, v) \<in> set ranking.
                    v = real (rating_count (ratings_df e) i) * mean_rating (ratings_df e) i)
              \<and> sorted_wrt (\<lambda>a b. snd a \<ge> snd b) ranking"
      using popularity_distinct popularity_set popularity_sorted k(2) by blast
  }
  {
    assume a: "ratings_df e = [] \<and> 0 \<le> n \<and> n \<le> int (length (movies_df e))
            \<and> valid_choice choice (length (movies_df e)) (nat n)"
    let ?idxs = "choice (length (movies_df e)) (nat n)"
    have "get_recommendations choice e uid n = Inr (map (\<lambda>i. m_id (movies_df e ! i)) ?idxs)"
      using a by (simp add: cold_start_result[OF cold] get_popular_movies_def
          sample_def comp_def)
    with a show "\<exists>idxs. get_recommendations choice e uid n = Inr (map (\<lambda>i. m_id (movies_df e ! i)) idxs)
              \<and> length idxs = nat n \<and> distinct idxs
              \<and> (\<forall>i \<in> set idxs. i < length (movies_df e))"
      unfolding valid_choice_def by blast
  }
qed

theorem cold_start_popularity_witness:
  "filter (\<lambda>r. r_user_id r = 9) (ratings_df ex_popular) = []
   \<and> ratings_df ex_popular \<noteq> []
   \<and> get_recommendations draw_first ex_popular 9 2 = Inr [1, 3]
   \<and> (\<exists>ranking :: (int \<times> real) list.
         [1, 3] = take (nat 2) (map fst ranking)
         \<and> distinct (map fst ranking)
         \<and> set (map fst ranking) = r_movie_id ` set (ratings_df ex_popular)
         \<and> sorted_wrt (\<lambda>a b. snd a \<ge> snd b) ranking)
   \<and> ratings_df ex_no_ratings = []
   \<and> 2 \<le> int (length (movies_df ex_no_ratings))
   \<and> valid_choice draw_last (length (movies_df ex_no_ratings)) (nat 2)
   \<and> get_recommendations draw_last ex_no_ratings 9 2 = Inr [3, 2]
   \<and> (\<exists>idxs. [3, 2] = map (\<lambda>i. m_id (movies_df ex_no_ratings ! i)) idxs
         \<and> length idxs = nat 2 \<and> distinct idxs)"
proof -
  have a1: "\<forall>r \<in> set (ratings_df ex_popular). r_user_id r \<noteq> 9"
    by (simp add: ex_popular_def mk_rating_def)
  have a2: "filter (\<lambda>r. r_user_id r = 9) (ratings_df ex_popular) = []"
    by (simp add: ex_popular_def mk_rating_def)
  have a3: "ratings_df ex_popular \<noteq> []"
    by (simp add: ex_popular_def)
  have a4: "get_recommendations draw_first ex_popular 9 2 = Inr [1, 3]"
    by code_simp
  have b1: "\<forall>r \<in> set (ratings_df ex_no_ratings). r_user_id r \<noteq> 9"
    by (simp add: ex_no_ratings_def)
  have b2: "ratings_df ex_no_ratings = []"
    by (simp add: ex_no_ratings_def)
  have b3: "2 \<le> int (length (movies_df ex_no_ratings))"
    by (simp add: ex_no_ratings_def ex_engine_def)
  have b4: "valid_choice draw_last (length (movies_df ex_no_ratings)) (nat 2)"
    by code_simp
  have b5: "get_recommendations draw_last ex_no_ratings 9 2 = Inr [3, 2]"
    by code_simp
  have a: "\<exists>ranking :: (int \<times> real) list.
         [1, 3] = take (nat 2) (map fst ranking)
         \<and> distinct (map fst ranking)
         \<and> set (map fst ranking) = r_movie_id ` set (ratings_df ex_popular)
         \<and> sorted_wrt (\<lambda>a b. snd a \<ge> snd b) ranking"
  proof -
    from cold_start_popularity[OF a1, of draw_first 2] a3
    obtain ranking :: "(int \<times> real) list" and k where
      r: "get_recommendations draw_first ex_popular 9 2 = Inr (take k (map fst ranking))"
        "0 \<le> (2::int) \<longrightarrow> k = nat 2"
        "distinct (map fst ranking)"
        "set (map fst ranking) = r_movie_id ` set (ratings_df ex_popular)"
        "sorted_wrt (\<lambda>a b. snd a \<ge> snd b) ranking"
      by blast
    from r(1,2) a4 have "[1, 3] = take (nat 2) (map fst ranking)" by simp
    with r(3,4,5) show ?thesis by blast
  qed
  have b: "\<exists>idxs. [3, 2] = map (\<lambda>i. m_id (movies_df ex_no_ratings ! i)) idxs
         \<and> length idxs = nat 2 \<and> distinct idxs"
  proof -
    from cold_start_popularity[OF b1, of draw_last 2] b2 b3 b4
    obtain idxs where
      i: "get_recommendations draw_last ex_no_ratings 9 2 =
            Inr (map (\<lambda>i. m_id (movies_df ex_no_ratings ! i)) idxs)"
        "length idxs = nat 2" "distinct idxs"
      by auto
    from i(1) b5 have "[3, 2] = map (\<lambda>i. m_id (movies_df ex_no_ratings ! i)) idxs" by simp
    with i(2,3) show ?thesis by (intro exI[of _ idxs]) simp
  qed
  from a2 a3 a4 a b2 b3 b4 b5 b show ?thesis by blast
qed

text \<open>
  C6 as stated fails: with a catalog of three items of which only item 1 has a rating (by
  user 1), user 9, who has no ratings and asks for three recommendations, gets item 1
  alone; items 2 and 3 are not ranked.
\<close>

theorem cold_start_skips_unrated_items:
  "map r_user_id (ratings_df ex_engine) = [1]
   \<and> map m_id (movies_df ex_engine) = [1, 2, 3]
   \<and> get_recommendations draw_first ex_engine 9 3 = Inr [1]"
  by code_simp

subsection \<open>Length, uniqueness and catalog membership of the result\<close>

text \<open>
  For \<open>n \<ge> 0\<close>, identifiers that are unique in the item table and ratings that refer to
  items of the table, a returned list has at most \<open>n\<close> elements, no duplicates and only
  catalog identifiers; on the hybrid path and on the popularity path a large \<open>n\<close> returns
  every candidate. The fallback over an empty rating snapshot raises for a large \<open>n\<close>.
\<close>

lemma fallback_raises_when_short:
  "ratings_df e = [] \<Longrightarrow> int (length (movies_df e)) < n \<Longrightarrow>
     get_recommendations choice e uid n = Inl ValueError"
  by (simp add: get_recommendations_def get_popular_movies_def sample_def)

lemma distinct_nth_map:
  assumes "distinct xs" and "distinct idxs" and "\<forall>i \<in> set idxs. i < length xs"
  shows "distinct (map (\<lambda>i. xs ! i) idxs)"
  using assms by (auto simp: distinct_map inj_on_def nth_eq_iff_index_eq)

lemma result_contract:
  assumes res: "get_recommendations choice e uid n = Inr res" and n: "0 \<le> n"
      and ids: "distinct (map m_id (movies_df e))"
      and fk: "r_movie_id ` set (ratings_df e) \<subseteq> m_id ` set (movies_df e)"
      and ch: "ratings_df e = [] \<longrightarrow> valid_choice choice (length (movies_df e)) (nat n)"
  shows "length res \<le> nat n \<and> distinct res \<and> set res \<subseteq> m_id ` set (movies_df e)"
proof (cases "filter (\<lambda>r. r_user_id r = uid) (ratings_df e) = []")
  case False
  let ?rated = "map r_movie_id (filter (\<lambda>r. r_user_id r = uid) (ratings_df e))"
  let ?key = "\<lambda>x. - hybrid_score x"
  from False res obtain recs where
    sc: "score_all e uid ?rated (unrated_movies e ?rated) = Inr recs" and
    r: "res = map rec_movie_id (py_take n (sort_key ?key recs))"
    by (rule hybrid_result)
  have cand: "map rec_movie_id recs = filter (\<lambda>i. i \<notin> set ?rated) (map m_id (movies_df e))"
    using score_all_ids[OF sc] unrated_movies_ids by simp
  have "mset (map rec_movie_id (sort_key ?key recs)) = mset (map rec_movie_id recs)"
    by simp
  with cand ids have d: "distinct (map rec_movie_id (sort_key ?key recs))"
    by (metis distinct_filter mset_eq_imp_distinct_iff)
  have s: "set (map rec_movie_id (sort_key ?key recs)) \<subseteq> m_id ` set (movies_df e)"
    using cand by (metis (no_types, lifting) filter_is_subset set_map set_sort list.set_map)
  from r n have r': "res = take (nat n) (map rec_movie_id (sort_key ?key recs))"
    by (simp add: py_take_nonneg take_map)
  have "set res \<subseteq> set (map rec_movie_id (sort_key ?key recs))"
    unfolding r' by (rule set_take_subset)
  with s have "set res \<subseteq> m_id ` set (movies_df e)" by blast
  moreover from r' d have "distinct res" "length res \<le> nat n" by simp_all
  ultimately show ?thesis by blast
next
  case True
  then have pop: "get_popular_movies choice e n = Inr res"
    using res by (simp add: cold_start_result)
  show ?thesis
  proof (cases "ratings_df e = []")
    case False
    with pop n have r: "res = take (nat n) (map fst (popularity (ratings_df e)))"
      by (simp add: get_popular_movies_def py_take_nonneg take_map)
    have "set res \<subseteq> set (map fst (popularity (ratings_df e)))"
      unfolding r by (rule set_take_subset)
    with popularity_set[of "ratings_df e"] fk have "set res \<subseteq> m_id ` set (movies_df e)"
      by blast
    moreover from r popularity_distinct[of "ratings_df e"]
    have "distinct res" "length res \<le> nat n" by simp_all
    ultimately show ?thesis by blast
  next
    case e: True
    with pop have ok: "\<not> (n < 0 \<or> int (length (movies_df e)) < n)"
      by (auto simp: get_popular_movies_def sample_def split: if_splits)
    let ?idxs = "choice (length (movies_df e)) (nat n)"
    from e pop ok have r: "res = map (\<lambda>i. map m_id (movies_df e) ! i) ?idxs"
      using ch by (auto simp: get_popular_movies_def sample_def valid_choice_def)
    from e ch have v: "length ?idxs = nat n" "distinct ?idxs"
      "\<forall>i \<in> set ?idxs. i < length (map m_id (movies_df e))"
      by (simp_all add: valid_choice_def)
    from distinct_nth_map[OF ids v(2,3)] r v show ?thesis
      by auto
  qed
qed


lemma all_candidates_when_n_large:
  assumes "get_recommendations choice e uid n = Inr res"
  shows "filter (\<lambda>r. r_user_id r = uid) (ratings_df e) \<noteq> [] \<Longrightarrow>
           int (length (filter (\<lambda>i. i \<notin> r_movie_id ` {r \<in> set (ratings_df e). r_user_id r = uid})
                  (map m_id (movies_df e)))) \<le> n \<Longrightarrow>
           mset res =
             mset (filter (\<lambda>i. i \<notin> r_movie_id ` {r \<in> set (ratings_df e). r_user_id r = uid})
                     (map m_id (movies_df e)))"
    and "filter (\<lambda>r. r_user_id r = uid) (ratings_df e) = [] \<Longrightarrow> ratings_df e \<noteq> [] \<Longrightarrow>
           int (card (r_movie_id ` set (ratings_df e))) \<le> n \<Longrightarrow>
           set res = r_movie_id ` set (ratings_df e)"
proof -
  {
    assume ne: "filter (\<lambda>r. r_user_id r = uid) (ratings_df e) \<noteq> []"
      and big: "int (length (filter (\<lambda>i. i \<notin> r_movie_id ` {r \<in> set (ratings_df e). r_user_id r = uid})
                  (map m_id (movies_df e)))) \<le> n"
    let ?rated = "map r_movie_id (filter (\<lambda>r. r_user_id r = uid) (ratings_df e))"
    let ?key = "\<lambda>x. - hybrid_score x"
    from ne assms obtain recs where
      sc: "score_all e uid ?rated (unrated_movies e ?rated) = Inr recs" and
      r: "res = map rec_movie_id (py_take n (sort_key ?key recs))"
      by (rule hybrid_result)
    have set_rated: "set ?rated = r_movie_id ` {r \<in> set (ratings_df e). r_user_id r = uid}"
      by auto
    have cand: "map rec_movie_id recs =
        filter (\<lambda>i. i \<notin> r_movie_id ` {r \<in> set (ratings_df e). r_user_id r = uid})
          (map m_id (movies_df e))"
      using score_all_ids[OF sc] unrated_movies_ids[of e ?rated] unfolding set_rated by simp
    from cand big have "int (length recs) \<le> n"
      by (metis length_map)
    then have "py_take n (sort_key ?key recs) = sort_key ?key recs"
      by (simp add: py_take_def)
    with r have "mset res = mset (map rec_movie_id recs)" by simp
    with cand show "mset res =
             mset (filter (\<lambda>i. i \<notin> r_movie_id ` {r \<in> set (ratings_df e). r_user_id r = uid})
                     (map m_id (movies_df e)))" by simp
  }
  {
    assume cold: "filter (\<lambda>r. r_user_id r = uid) (ratings_df e) = []"
      and ne: "ratings_df e \<noteq> []"
      and big: "int (card (r_movie_id ` set (ratings_df e))) \<le> n"
    have "length (map fst (popularity (ratings_df e))) = card (r_movie_id ` set (ratings_df e))"
      using popularity_distinct[of "ratings_df e"] popularity_set[of "ratings_df e"]
      by (metis distinct_card)
    with big have "py_take n (popularity (ratings_df e)) = popularity (ratings_df e)"
      by (simp add: py_take_def)
    with assms cold ne have "res = map fst (popularity (ratings_df e))"
      by (simp add: cold_start_result get_popular_movies_def)
    then show "set res = r_movie_id ` set (ratings_df e)"
      using popularity_set by simp
  }
qed

text \<open>
  C1, at an input where the code departs from it: the claim has every eligible candidate
  returned, without an error, when \<open>n\<close> exceeds their number. On the fallback over an
  empty rating snapshot, asked for five recommendations over a catalog of three items,
  \<open>sample\<close> raises \<open>ValueError\<close> instead.
\<close>

theorem sample_fallback_raises:
  "ratings_df ex_no_ratings = []
   \<and> length (movies_df ex_no_ratings) = 3
   \<and> get_recommendations draw_first ex_no_ratings 9 5 = Inl ValueError"
  by code_simp

end
